theory Spec2Isabelle
  imports
    Complex_Main
    "HOL-Library.Word"
    "HOL-Library.Signed_Division"
    "HOL-Library.Log_Nat"
begin

section \<open>The jukebox engine of gonic (package jukebox)\<close>

text \<open>
  The development embeds the Go package \<^verbatim>\<open>jukebox\<close>: the playlist with its cursor,
  the counting pipe reader, the player interface, the decode session and the control
  loop of \<^verbatim>\<open>DecodeStream\<close>.

  Conventions of the embedding.
  \<^item> Every method of \<^verbatim>\<open>*Jukebox\<close> runs its body under the playlist lock; the model
    takes the state and returns the new one, one method call being one atomic step.
  \<^item> A send on the unbuffered channel \<^verbatim>\<open>next\<close> is recorded by counting it in the
    field \<open>next_sent\<close>; \<^verbatim>\<open>close(j.quit)\<close> is recorded in \<open>quit_closed\<close>.
  \<^item> Go's \<^verbatim>\<open>int\<close> is taken at 64 bits. The values on which overflow can matter
    (\<^verbatim>\<open>time.Duration\<close>, the \<^verbatim>\<open>uint64\<close> byte counter, \<^verbatim>\<open>offsetSecs\<close>, the reported
    position) are \<open>64 word\<close>. Indices and lengths are \<open>int\<close>: the cursor only ever
    holds 0, an index that passed \<open>inbounds\<close>, or such a value after one increment per
    decode session.
  \<^item> The playlist holds \<^verbatim>\<open>*PlaylistItem\<close>; the model holds the items by value, that
    is, the entries of a playlist are taken to be distinct non-nil pointers, as the
    request handler creates them (one \<^verbatim>\<open>NewPlaylistItem\<close> per entry).
\<close>

subsection \<open>Playlist items\<close>

text \<open>\<^verbatim>\<open>time.Duration\<close> is an \<^verbatim>\<open>int64\<close> count of nanoseconds.\<close>

type_synonym Duration = "64 word"

definition Second :: Duration where
  "Second = 1000000000"

record PlaylistItem =
  id' :: int
  path :: string
  seek :: Duration

definition ID :: "PlaylistItem \<Rightarrow> int" where
  "ID p = id' p"

definition Path :: "PlaylistItem \<Rightarrow> string" where
  "Path p = path p"

text \<open>\<^verbatim>\<open>&PlaylistItem{id: id, path: path}\<close>: the field \<^verbatim>\<open>seek\<close> gets its zero value.\<close>

definition NewPlaylistItem :: "int \<Rightarrow> string \<Rightarrow> PlaylistItem" where
  "NewPlaylistItem n p = \<lparr>id' = n, path = p, seek = 0\<rparr>"

definition inbounds :: "int \<Rightarrow> int \<Rightarrow> bool" where
  "inbounds length' k \<longleftrightarrow> length' > 0 \<and> k \<ge> 0 \<and> k < length'"

subsection \<open>The player interface (player.go)\<close>

text \<open>
  \<^verbatim>\<open>Player\<close> is an interface; an implementation is a state type \<open>'p\<close> with the eight
  methods. \<open>'v\<close> is the type of volumes (\<^verbatim>\<open>float64\<close>), which the jukebox only passes
  through. \<^verbatim>\<open>UnplayedBufferSize\<close> returns an \<^verbatim>\<open>int\<close>, whose only use is the
  conversion \<^verbatim>\<open>uint64(...)\<close>, which keeps the 64 bits. The error returned by
  \<^verbatim>\<open>Close\<close> is dropped by its only caller.
\<close>

record ('p, 'v) Player =
  Pause :: "'p \<Rightarrow> 'p"
  Play :: "'p \<Rightarrow> 'p"
  IsPlaying :: "'p \<Rightarrow> bool"
  Reset :: "'p \<Rightarrow> 'p"
  Volume :: "'p \<Rightarrow> 'v"
  SetVolume :: "'v \<Rightarrow> 'p \<Rightarrow> 'p"
  UnplayedBufferSize :: "'p \<Rightarrow> 64 word"
  Close :: "'p \<Rightarrow> 'p"

definition SampleRate :: nat where
  "SampleRate = 48000"

definition BitsPerSample :: nat where
  "BitsPerSample = 16"

definition Channels :: nat where
  "Channels = 2"

definition BitRate :: nat where
  "BitRate = SampleRate * BitsPerSample * Channels"

text \<open>The test double of the package's tests (\<^verbatim>\<open>mockPlayer\<close>).\<close>

record 'v mockPlayer =
  playing :: bool
  gain :: 'v

definition mockPlayer_methods :: "('v mockPlayer, 'v) Player" where
  "mockPlayer_methods =
     \<lparr>Pause = (\<lambda>m. m\<lparr>playing := False\<rparr>),
      Play = (\<lambda>m. m\<lparr>playing := True\<rparr>),
      IsPlaying = playing,
      Reset = (\<lambda>m. m\<lparr>playing := False\<rparr>),
      Volume = gain,
      SetVolume = (\<lambda>g m. m\<lparr>gain := g\<rparr>),
      UnplayedBufferSize = (\<lambda>m. 0),
      Close = (\<lambda>m. m)\<rparr>"

subsection \<open>The counting reader of the pipe\<close>

text \<open>
  Modelled from the spec: the package \<^verbatim>\<open>countrw\<close> (\<^verbatim>\<open>CountReader\<close> with \<^verbatim>\<open>Count\<close>
  and \<^verbatim>\<open>Reset\<close>) is not among the sources. The spec: the reader keeps a counter of
  the bytes it has returned since the last reset; \<^verbatim>\<open>Count()\<close> returns the counter;
  \<^verbatim>\<open>Reset()\<close> discards any buffered, unread bytes and zeros the counter.
\<close>

record CountReader =
  counter :: "64 word"
  buffered :: nat

definition Count :: "CountReader \<Rightarrow> 64 word" where
  "Count r = counter r"

definition CountReader_Reset :: "CountReader \<Rightarrow> CountReader" where
  "CountReader_Reset r = r\<lparr>counter := 0, buffered := 0\<rparr>"

definition NewCountReader :: CountReader where
  "NewCountReader = \<lparr>counter = 0, buffered = 0\<rparr>"

subsection \<open>The jukebox\<close>

datatype error = ErrOOB | CreatePlayer string | ClosedChannelPanic

record 'p Jukebox =
  pcmr :: CountReader
  player :: 'p
  next_sent :: nat
  quit_closed :: bool
  i :: int
  items :: "PlaylistItem list"
  logged :: "string list"

text \<open>
  \<^verbatim>\<open>New\<close>: \<open>pf\<close> is the result of the player factory on the pipe reader, an error
  message or a player.
\<close>

definition New :: "string + 'p \<Rightarrow> error + 'p Jukebox" where
  "New pf =
     (case pf of
        Inl err \<Rightarrow> Inl (CreatePlayer err)
      | Inr p \<Rightarrow>
          Inr \<lparr>pcmr = NewCountReader, player = p, next_sent = 0, quit_closed = False,
               i = 0, items = [], logged = []\<rparr>)"

definition GetItems :: "'p Jukebox \<Rightarrow> PlaylistItem list" where
  "GetItems j = [] @ items j"

definition SetItems :: "PlaylistItem list \<Rightarrow> 'p Jukebox \<Rightarrow> 'p Jukebox" where
  "SetItems xs j = (let j1 = j\<lparr>items := xs\<rparr> in j1\<lparr>next_sent := next_sent j1 + 1\<rparr>)"

definition AppendItems :: "PlaylistItem list \<Rightarrow> 'p Jukebox \<Rightarrow> 'p Jukebox" where
  "AppendItems xs j = j\<lparr>items := items j @ xs\<rparr>"

definition RemoveItem :: "int \<Rightarrow> 'p Jukebox \<Rightarrow> 'p Jukebox" where
  "RemoveItem k j =
     (if \<not> inbounds (int (length (items j))) k then j
      else j\<lparr>items := take (nat k) (items j) @ drop (nat k + 1) (items j)\<rparr>)"

definition ClearItems :: "('p, 'v) Player \<Rightarrow> 'p Jukebox \<Rightarrow> 'p Jukebox" where
  "ClearItems P j =
     j\<lparr>i := 0, items := [], player := Reset P (player j),
       pcmr := CountReader_Reset (pcmr j)\<rparr>"

definition Jukebox_Pause :: "('p, 'v) Player \<Rightarrow> 'p Jukebox \<Rightarrow> 'p Jukebox" where
  "Jukebox_Pause P j = j\<lparr>player := Pause P (player j)\<rparr>"

definition Jukebox_Play :: "('p, 'v) Player \<Rightarrow> 'p Jukebox \<Rightarrow> 'p Jukebox" where
  "Jukebox_Play P j = j\<lparr>player := Play P (player j)\<rparr>"

text \<open>\<^verbatim>\<open>Current\<close> returns \<^verbatim>\<open>(nil, ErrOOB)\<close> or \<^verbatim>\<open>(item, nil)\<close>.\<close>

definition Current :: "'p Jukebox \<Rightarrow> error + PlaylistItem" where
  "Current j =
     (if \<not> inbounds (int (length (items j))) (i j) then Inl ErrOOB
      else Inr (items j ! nat (i j)))"

text \<open>
  \<^verbatim>\<open>Skip(i, offsetSecs)\<close>; the index argument is \<open>k\<close> here. The product
  \<^verbatim>\<open>time.Duration(offsetSecs) * time.Second\<close> is an \<^verbatim>\<open>int64\<close> product and wraps.
\<close>

definition Skip :: "('p, 'v) Player \<Rightarrow> int \<Rightarrow> 64 word \<Rightarrow> 'p Jukebox \<Rightarrow> 'p Jukebox" where
  "Skip P k offsetSecs j =
     (if \<not> inbounds (int (length (items j))) k then j
      else
        let j1 = j\<lparr>i := k\<rparr>;
            j2 = j1\<lparr>items := (items j1)[nat k := (items j1 ! nat k)\<lparr>seek := offsetSecs * Second\<rparr>]\<rparr>;
            j3 = j2\<lparr>player := Play P (player j2)\<rparr>
        in j3\<lparr>next_sent := next_sent j3 + 1\<rparr>)"

definition SetGain :: "('p, 'v) Player \<Rightarrow> 'v \<Rightarrow> 'p Jukebox \<Rightarrow> 'p Jukebox" where
  "SetGain P v j = j\<lparr>player := SetVolume P v (player j)\<rparr>"

definition GetGain :: "('p, 'v) Player \<Rightarrow> 'p Jukebox \<Rightarrow> 'v" where
  "GetGain P j = Volume P (player j)"

text \<open>
  \<^verbatim>\<open>Quit\<close>: closing a channel that is already closed panics, after the assignments
  before it.
\<close>

definition Quit :: "('p, 'v) Player \<Rightarrow> 'p Jukebox \<Rightarrow> error + 'p Jukebox" where
  "Quit P j =
     (let j1 = j\<lparr>i := 0, items := [], pcmr := CountReader_Reset (pcmr j),
                 player := Close P (player j)\<rparr>
      in if quit_closed j1 then Inl ClosedChannelPanic else Inr (j1\<lparr>quit_closed := True\<rparr>))"

subsection \<open>Status\<close>

text \<open>
  \<^verbatim>\<open>item.seek.Seconds()\<close> is computed in \<^verbatim>\<open>float64\<close> by the standard library:
  \<^verbatim>\<open>sec := d / Second; nsec := d % Second; return float64(sec) + float64(nsec)/1e9\<close>.
  The model computes with rationals and rounds where the hardware does.
  \<open>float64_round\<close> is rounding to the nearest binary64 number, ties to even, for
  values in the normal range (which all values here are: they are 0 or lie between
  \<open>10\<^sup>-\<^sup>9\<close> and \<open>10\<^sup>1\<^sup>0\<close> in magnitude). The two conversions of integers below
  \<open>2\<^sup>5\<^sup>3\<close> to \<^verbatim>\<open>float64\<close> are exact. Go's \<^verbatim>\<open>/\<close> and \<^verbatim>\<open>%\<close> on integers truncate
  towards zero (\<open>sdiv\<close>, \<open>smod\<close>). The conversion \<^verbatim>\<open>int(f)\<close> discards the fraction.
\<close>

definition ilog2 :: "rat \<Rightarrow> int" where
  "ilog2 x =
     (let (p, q) = quotient_of x; e = bitlen p - bitlen q
      in if 2 powi e \<le> x then e else e - 1)"

definition round_half_even :: "rat \<Rightarrow> int" where
  "round_half_even m =
     (let f = \<lfloor>m\<rfloor>; r = m - of_int f
      in if r < 1 / 2 then f else if 1 / 2 < r then f + 1
         else if even f then f else f + 1)"

definition float64_round :: "rat \<Rightarrow> rat" where
  "float64_round x =
     (if x = 0 then 0
      else
        let u = 2 powi (ilog2 \<bar>x\<bar> - 52)
        in sgn x * of_int (round_half_even (\<bar>x\<bar> / u)) * u)"

definition Seconds :: "Duration \<Rightarrow> rat" where
  "Seconds d =
     (let sec = sint d sdiv sint Second; nsec = sint d smod sint Second
      in float64_round (of_int sec + float64_round (of_int nsec / 1000000000)))"

definition float64_to_int :: "rat \<Rightarrow> int" where
  "float64_to_int x = (if 0 \<le> x then \<lfloor>x\<rfloor> else \<lceil>x\<rceil>)"

record 'v Status =
  CurrentIndex :: int
  Playing :: bool
  Gain :: 'v
  Position :: "64 word"

text \<open>
  \<open>g0\<close> is the zero value of \<^verbatim>\<open>float64\<close>, with which \<^verbatim>\<open>var status Status\<close> starts.
  \<^verbatim>\<open>int(playedSecs)\<close> converts \<^verbatim>\<open>uint64\<close> to \<^verbatim>\<open>int\<close> and keeps the bits.
\<close>

definition GetStatus :: "('p, 'v) Player \<Rightarrow> 'v \<Rightarrow> 'p Jukebox \<Rightarrow> 'v Status" where
  "GetStatus P g0 j =
     (let status = \<lparr>CurrentIndex = 0, Playing = False, Gain = g0, Position = 0\<rparr>;
          status = status\<lparr>CurrentIndex := i j\<rparr>;
          status = status\<lparr>Playing := IsPlaying P (player j)\<rparr>;
          status = status\<lparr>Gain := Volume P (player j)\<rparr>
      in if \<not> inbounds (int (length (items j))) (i j) then status
         else
           let item = items j ! nat (i j);
               playedBytes = Count (pcmr j) - UnplayedBufferSize P (player j);
               playedSecs = playedBytes div of_nat (BitRate div 8);
               seekedSecs = Seconds (seek item)
           in status\<lparr>Position := playedSecs + word_of_int (float64_to_int seekedSecs)\<rparr>)"

subsection \<open>The decode session\<close>

text \<open>
  The closure \<^verbatim>\<open>decode\<close> of \<^verbatim>\<open>DecodeStream\<close>. The transcoder is external; while
  \<^verbatim>\<open>Transcode\<close> blocks, bytes pass through the pipe and other methods may run. The
  model takes this as the parameter \<open>T\<close>: it maps the item and the state before the call
  to the returned error (\<open>None\<close> is \<^verbatim>\<open>nil\<close>) and the state after it.
  \<open>decode_tail\<close> is what follows the call to \<^verbatim>\<open>Transcode\<close>: the log line on error,
  \<^verbatim>\<open>j.i++\<close>, the send on \<^verbatim>\<open>next\<close>, and the deferred \<^verbatim>\<open>j.pcmr.Reset()\<close>.
\<close>

definition decode_tail :: "string option \<Rightarrow> 'p Jukebox \<Rightarrow> 'p Jukebox" where
  "decode_tail err j =
     (let j1 = (case err of
                  None \<Rightarrow> j
                | Some e \<Rightarrow> j\<lparr>logged := logged j @ [''decoding item: '' @ e]\<rparr>);
          j2 = j1\<lparr>i := i j1 + 1\<rparr>;
          j3 = j2\<lparr>next_sent := next_sent j2 + 1\<rparr>
      in j3\<lparr>pcmr := CountReader_Reset (pcmr j3)\<rparr>)"

definition decode ::
  "('p, 'v) Player \<Rightarrow> (PlaylistItem \<Rightarrow> 'p Jukebox \<Rightarrow> string option \<times> 'p Jukebox) \<Rightarrow>
     'p Jukebox \<Rightarrow> 'p Jukebox" where
  "decode P T j =
     (case Current j of
        Inl err \<Rightarrow> (let j1 = ClearItems P j in j1\<lparr>pcmr := CountReader_Reset (pcmr j1)\<rparr>)
      | Inr item \<Rightarrow> (case T item j of (err, j1) \<Rightarrow> decode_tail err j1))"

subsection \<open>The control loop\<close>

text \<open>
  \<^verbatim>\<open>for { ctx, cancel := ...; select { ... } }\<close>. One iteration creates a
  cancellation token and receives from one of the three channels; the model numbers the
  tokens by iteration and takes the list of the channels that deliver, in order. An
  iteration reports what it did and whether the \<^verbatim>\<open>for\<close> statement goes on. In Go a
  \<^verbatim>\<open>break\<close> inside \<^verbatim>\<open>select\<close> leaves the \<^verbatim>\<open>select\<close> statement, not the loop around it.
  When the list is used up the loop is blocked in \<^verbatim>\<open>select\<close>.
\<close>

datatype channel = RecvNext | RecvCancel | RecvQuit

datatype loop_action = GoDecode nat | FireCancel nat

datatype flow = NextIteration | LoopExit

fun iteration :: "nat \<Rightarrow> channel \<Rightarrow> loop_action \<times> flow" where
  "iteration ctx RecvNext = (GoDecode ctx, NextIteration)"
| "iteration ctx RecvCancel = (FireCancel ctx, NextIteration)"
| "iteration ctx RecvQuit = (FireCancel ctx, NextIteration)"

fun DecodeStream :: "nat \<Rightarrow> channel list \<Rightarrow> loop_action list \<times> flow" where
  "DecodeStream ctx [] = ([], NextIteration)"
| "DecodeStream ctx (c # cs) =
     (case iteration ctx c of
        (a, LoopExit) \<Rightarrow> ([a], LoopExit)
      | (a, NextIteration) \<Rightarrow>
          (case DecodeStream (Suc ctx) cs of (as, fl) \<Rightarrow> (a # as, fl)))"

subsection \<open>Runs of the engine\<close>

text \<open>
  The states the engine can reach are those a sequence of method calls and decode
  sessions produces from the state \<^verbatim>\<open>New\<close> returns. \<open>CallDecode err n\<close> is a decode
  session whose call to \<^verbatim>\<open>Transcode\<close> returns \<open>err\<close> while the player reads \<open>n\<close> bytes
  from the pipe. A panic ends the run.
\<close>

datatype 'v invocation =
    CallSetItems "PlaylistItem list"
  | CallAppendItems "PlaylistItem list"
  | CallRemoveItem int
  | CallClearItems
  | CallPause
  | CallPlay
  | CallSkip int "64 word"
  | CallSetGain 'v
  | CallQuit
  | CallDecode "string option" "64 word"

definition transcoding :: "string option \<Rightarrow> 64 word \<Rightarrow> PlaylistItem \<Rightarrow> 'p Jukebox \<Rightarrow>
    string option \<times> 'p Jukebox" where
  "transcoding err n item j = (err, j\<lparr>pcmr := (pcmr j)\<lparr>counter := counter (pcmr j) + n\<rparr>\<rparr>)"

fun call :: "('p, 'v) Player \<Rightarrow> 'v invocation \<Rightarrow> 'p Jukebox \<Rightarrow> error + 'p Jukebox" where
  "call P (CallSetItems xs) j = Inr (SetItems xs j)"
| "call P (CallAppendItems xs) j = Inr (AppendItems xs j)"
| "call P (CallRemoveItem k) j = Inr (RemoveItem k j)"
| "call P CallClearItems j = Inr (ClearItems P j)"
| "call P CallPause j = Inr (Jukebox_Pause P j)"
| "call P CallPlay j = Inr (Jukebox_Play P j)"
| "call P (CallSkip k offsetSecs) j = Inr (Skip P k offsetSecs j)"
| "call P (CallSetGain v) j = Inr (SetGain P v j)"
| "call P CallQuit j = Quit P j"
| "call P (CallDecode err n) j = Inr (decode P (transcoding err n) j)"

fun calls :: "('p, 'v) Player \<Rightarrow> 'v invocation list \<Rightarrow> 'p Jukebox \<Rightarrow> error + 'p Jukebox" where
  "calls P [] j = Inr j"
| "calls P (c # cs) j = (case call P c j of Inl e \<Rightarrow> Inl e | Inr j1 \<Rightarrow> calls P cs j1)"

definition seek_nonneg :: "PlaylistItem \<Rightarrow> bool" where
  "seek_nonneg p \<longleftrightarrow> 0 \<le> sint (seek p)"

text \<open>
  The arguments under which the seeks stay non-negative: items handed in have a
  non-negative seek, and the offset of a skip is a non-negative number of seconds that
  fits a \<^verbatim>\<open>time.Duration\<close> (\<open>9223372036 \<cdot> 10\<^sup>9 < 2\<^sup>6\<^sup>3\<close>).
\<close>

fun call_ok :: "'v invocation \<Rightarrow> bool" where
  "call_ok (CallSetItems xs) = list_all seek_nonneg xs"
| "call_ok (CallAppendItems xs) = list_all seek_nonneg xs"
| "call_ok (CallSkip k offsetSecs) = (0 \<le> sint offsetSecs \<and> sint offsetSecs \<le> 9223372036)"
| "call_ok c = True"

subsection \<open>The state of the tests\<close>

text \<open>
  \<^verbatim>\<open>newJukebox\<close> of the tests: \<^verbatim>\<open>New\<close> with a factory that returns the mock player
  with gain 1.
\<close>

definition newJukebox :: "rat mockPlayer Jukebox" where
  "newJukebox =
     \<lparr>pcmr = NewCountReader, player = \<lparr>playing = False, gain = 1\<rparr>, next_sent = 0,
      quit_closed = False, i = 0, items = [], logged = []\<rparr>"

text \<open>
  The position as the specification words it, over the integers: played bytes are the
  count minus the unplayed buffer, divided by the bytes per second, plus the whole
  seconds of the seek (both divisions truncate).
\<close>

definition spec_Position :: "int \<Rightarrow> int \<Rightarrow> int \<Rightarrow> int" where
  "spec_Position count unplayed seek_ns =
     (count - unplayed) sdiv int (BitRate div 8) + seek_ns sdiv 1000000000"

section \<open>Properties\<close>

subsection \<open>Auxiliary facts\<close>

lemma New_mockPlayer: "New (Inr \<lparr>playing = False, gain = (1::rat)\<rparr>) = Inr newJukebox"
  by (simp add: New_def newJukebox_def)

lemma NewPlaylistItem_seek: "seek (NewPlaylistItem n p) = 0"
  by (simp add: NewPlaylistItem_def)

lemma inbounds_nat: "inbounds (int (length xs)) k \<Longrightarrow> nat k < length xs"
  unfolding inbounds_def by linarith

text \<open>A whole number of seconds within the range of \<^verbatim>\<open>int64\<close> nanoseconds is exact.\<close>

lemma sint_seconds_exact:
  fixes offsetSecs :: "64 word"
  assumes "- 9223372036 \<le> sint offsetSecs" and "sint offsetSecs \<le> 9223372036"
  shows "sint (offsetSecs * Second) = sint offsetSecs * 1000000000"
proof -
  have "sint (offsetSecs * Second) = signed_take_bit 63 (sint offsetSecs * 1000000000)"
    by (simp add: sint_word_ariths Second_def)
  also have "\<dots> = sint offsetSecs * 1000000000"
    using assms by (intro signed_take_bit_int_eq_self) simp_all
  finally show ?thesis .
qed

lemma SetItems_fields:
  "items (SetItems xs j) = xs \<and> i (SetItems xs j) = i j \<and>
   next_sent (SetItems xs j) = next_sent j + 1"
  by (simp add: SetItems_def)

text \<open>No branch of the \<^verbatim>\<open>select\<close> leaves the \<^verbatim>\<open>for\<close> loop: every delivery is handled.\<close>

lemma DecodeStream_never_exits:
  "snd (DecodeStream ctx cs) = NextIteration \<and>
   length (fst (DecodeStream ctx cs)) = length cs"
proof (induction cs arbitrary: ctx)
  case Nil
  then show ?case by simp
next
  case (Cons c cs)
  have "snd (iteration ctx c) = NextIteration" by (cases c) simp_all
  with Cons [of "Suc ctx"] show ?case
    by (cases "iteration ctx c"; cases "DecodeStream (Suc ctx) cs") simp
qed

subsection \<open>Rounding to \<^verbatim>\<open>float64\<close>\<close>

text \<open>
  The rounding error is at most \<open>2\<^sup>-\<^sup>5\<^sup>3\<close> of the value, and integers below \<open>2\<^sup>5\<^sup>3\<close> in
  magnitude are not changed. Hence \<^verbatim>\<open>Seconds()\<close> is bounded on all durations, and exact
  on whole seconds.
\<close>

lemma round_half_even_of_int: "round_half_even (of_int n) = n"
  by (simp add: round_half_even_def)

lemma round_half_even_err: "\<bar>of_int (round_half_even m) - m\<bar> \<le> 1 / 2"
proof -
  define r where "r = m - of_int \<lfloor>m\<rfloor>"
  have r: "0 \<le> r" "r < 1" unfolding r_def by linarith+
  have m: "m = of_int \<lfloor>m\<rfloor> + r" by (simp add: r_def)
  consider "r < 1 / 2" | "1 / 2 < r" | "r = 1 / 2" by linarith
  then show ?thesis
  proof cases
    case 1
    then have "round_half_even m = \<lfloor>m\<rfloor>"
      by (simp add: round_half_even_def r_def)
    with 1 r m show ?thesis by simp
  next
    case 2
    then have "round_half_even m = \<lfloor>m\<rfloor> + 1"
      by (simp add: round_half_even_def r_def)
    with 2 r m show ?thesis by simp
  next
    case 3
    then have "round_half_even m = \<lfloor>m\<rfloor> \<or> round_half_even m = \<lfloor>m\<rfloor> + 1"
      by (simp add: round_half_even_def r_def Let_def)
    with 3 m show ?thesis by auto
  qed
qed

lemma ilog2_le:
  assumes "0 < x"
  shows "2 powi (ilog2 x) \<le> x"
proof -
  obtain p q where pq: "quotient_of x = (p, q)" by (cases "quotient_of x")
  then have q: "0 < q" and x: "x = of_int p / of_int q"
    by (simp_all add: quotient_of_denom_pos quotient_of_div)
  with assms have p: "0 < p" by (simp add: zero_less_divide_iff)
  let ?e = "bitlen p - bitlen q"
  show ?thesis
  proof (cases "2 powi ?e \<le> x")
    case True
    with pq show ?thesis by (simp add: ilog2_def)
  next
    case False
    from bitlen_bounds [OF p] have "2 ^ nat (bitlen p - 1) \<le> p" by simp
    then have lo: "(2::rat) ^ nat (bitlen p - 1) \<le> of_int p"
      by (metis of_int_le_iff of_int_numeral of_int_power)
    from bitlen_bounds [OF q] have "q < 2 ^ nat (bitlen q)" by simp
    then have hi: "of_int q \<le> (2::rat) ^ nat (bitlen q)"
      by (metis less_imp_le of_int_le_iff of_int_numeral of_int_power)
    have bp: "1 \<le> bitlen p" using p by (simp add: bitlen_alt_def)
    have bq: "0 \<le> bitlen q" by (rule bitlen_nonneg)
    have "(2::rat) powi (?e - 1) = 2 powi ((bitlen p - 1) - bitlen q)"
      by (simp add: algebra_simps)
    also have "\<dots> = 2 powi (bitlen p - 1) / 2 powi (bitlen q)"
      by (rule power_int_diff) simp
    also have "\<dots> = (2::rat) ^ nat (bitlen p - 1) / 2 ^ nat (bitlen q)"
      using bp bq by (simp add: power_int_def)
    also have "\<dots> \<le> of_int p / of_int q"
      using lo hi q p by (intro frac_le) simp_all
    finally have "2 powi (?e - 1) \<le> x" using x by simp
    with False pq show ?thesis by (simp add: ilog2_def)
  qed
qed


lemma float64_round_err: "\<bar>float64_round x - x\<bar> \<le> \<bar>x\<bar> / 2 ^ 53"
proof (cases "x = 0")
  case True
  then show ?thesis by (simp add: float64_round_def)
next
  case False
  define u :: rat where "u = 2 powi (ilog2 \<bar>x\<bar> - 52)"
  have u_pos: "0 < u" by (simp add: u_def)
  have "u = 2 powi (ilog2 \<bar>x\<bar>) / 2 powi 52"
    unfolding u_def by (rule power_int_diff) simp
  also have "\<dots> \<le> \<bar>x\<bar> / 2 powi 52"
    using False by (intro divide_right_mono ilog2_le) simp_all
  finally have u_le: "u \<le> \<bar>x\<bar> / 2 ^ 52" by simp
  define n where "n = round_half_even (\<bar>x\<bar> / u)"
  have fx: "float64_round x = sgn x * of_int n * u"
    using False by (simp add: float64_round_def u_def n_def Let_def)
  have "x = sgn x * (\<bar>x\<bar> / u) * u"
    using u_pos by (simp add: sgn_mult_abs)
  then have "float64_round x - x = sgn x * (of_int n - \<bar>x\<bar> / u) * u"
    by (simp add: fx algebra_simps)
  then have "\<bar>float64_round x - x\<bar> = \<bar>of_int n - \<bar>x\<bar> / u\<bar> * u"
    using False u_pos by (simp add: abs_mult abs_sgn_eq)
  also have "\<dots> \<le> (1 / 2) * u"
    using u_pos round_half_even_err [of "\<bar>x\<bar> / u"]
    by (intro mult_right_mono) (simp_all add: n_def)
  also have "\<dots> \<le> (1 / 2) * (\<bar>x\<bar> / 2 ^ 52)"
    using u_le by simp
  finally show ?thesis by simp
qed

lemma float64_round_of_int:
  assumes "\<bar>k\<bar> < 2 ^ 53"
  shows "float64_round (of_int k) = of_int k"
proof (cases "k = 0")
  case True
  then show ?thesis by (simp add: float64_round_def)
next
  case False
  define e where "e = ilog2 \<bar>of_int k\<bar>"
  have "(2::rat) powi e \<le> \<bar>of_int k\<bar>"
    unfolding e_def using False by (intro ilog2_le) simp
  also have "\<dots> < 2 powi 53"
    using assms by (metis of_int_abs of_int_less_iff of_int_numeral of_int_power power_int_numeral)
  finally have "e < 53"
    by (rule power_int_le_imp_less_exp [rotated]) simp_all
  then have e: "0 \<le> 52 - e" by simp
  define c where "c = nat (52 - e)"
  have u: "(2::rat) powi (e - 52) = 1 / 2 ^ c"
    using e by (simp add: power_int_def c_def field_simps)
  have "\<bar>rat_of_int k\<bar> / (1 / 2 ^ c) = of_int (\<bar>k\<bar> * 2 ^ c)" by simp
  then have "round_half_even (\<bar>rat_of_int k\<bar> / (1 / 2 ^ c)) = \<bar>k\<bar> * 2 ^ c"
    by (simp only: round_half_even_of_int)
  then have "float64_round (of_int k) = sgn (of_int k) * of_int (\<bar>k\<bar> * 2 ^ c) * (1 / 2 ^ c)"
    using False u by (simp add: float64_round_def e_def Let_def)
  also have "\<dots> = sgn (rat_of_int k) * \<bar>rat_of_int k\<bar>"
    by simp
  also have "\<dots> = of_int k"
    by (rule sgn_mult_abs)
  finally show ?thesis .
qed


lemma sdiv_Second_bounds:
  fixes d :: "64 word"
  shows "\<bar>sint d sdiv 1000000000\<bar> \<le> 9223372036" and "\<bar>sint d smod 1000000000\<bar> < 1000000000"
proof -
  have "- (2 ^ 63) \<le> sint d" "sint d < 2 ^ 63"
    using sint_ge [of d] sint_lt [of d] by simp_all
  then have "\<bar>sint d\<bar> \<le> 9223372036854775808" by simp
  then have "\<bar>sint d\<bar> div 1000000000 \<le> 9223372036" by linarith
  then show "\<bar>sint d sdiv 1000000000\<bar> \<le> 9223372036"
    by (simp add: signed_divide_int_def abs_mult abs_sgn_eq)
  have "\<bar>sint d\<bar> mod 1000000000 < 1000000000" by simp
  then show "\<bar>sint d smod 1000000000\<bar> < 1000000000"
    by (simp add: signed_modulo_int_def abs_mult abs_sgn_eq)
qed

lemma Seconds_bound: "\<bar>Seconds d\<bar> \<le> 9223372040"
proof -
  define sec where "sec = sint d sdiv 1000000000"
  define nsec where "nsec = sint d smod 1000000000"
  define q where "q = float64_round (of_int nsec / 1000000000)"
  have S: "Seconds d = float64_round (of_int sec + q)"
    by (simp add: Seconds_def Second_def sec_def nsec_def q_def Let_def)
  have sec: "\<bar>rat_of_int sec\<bar> \<le> 9223372036"
    using sdiv_Second_bounds(1) [of d] unfolding sec_def
    by (metis of_int_abs of_int_le_iff of_int_numeral)
  have "\<bar>rat_of_int nsec\<bar> < 1000000000"
    using sdiv_Second_bounds(2) [of d] unfolding nsec_def
    by (metis of_int_abs of_int_less_iff of_int_numeral)
  then have ns: "\<bar>rat_of_int nsec / 1000000000\<bar> \<le> 1" by simp
  have "\<bar>q - of_int nsec / 1000000000\<bar> \<le> \<bar>of_int nsec / 1000000000\<bar> / 2 ^ 53"
    unfolding q_def by (rule float64_round_err)
  also have "\<dots> \<le> 1 / 2 ^ 53"
    using ns by (intro divide_right_mono) simp_all
  also have "\<dots> \<le> 1" by simp
  finally have "\<bar>q\<bar> \<le> 2" using ns by linarith
  with sec have x: "\<bar>of_int sec + q\<bar> \<le> 9223372038" by simp
  have "\<bar>Seconds d - (of_int sec + q)\<bar> \<le> \<bar>of_int sec + q\<bar> / 2 ^ 53"
    unfolding S by (rule float64_round_err)
  also have "\<dots> \<le> 9223372038 / 2 ^ 53"
    using x by (intro divide_right_mono) simp_all
  also have "\<dots> \<le> 1" by simp
  finally show ?thesis using x by simp
qed

lemma Seconds_whole:
  assumes "sint d smod 1000000000 = 0"
  shows "Seconds d = of_int (sint d sdiv 1000000000)"
proof -
  have "\<bar>sint d sdiv 1000000000\<bar> < 2 ^ 53"
    using sdiv_Second_bounds(1) [of d] by simp
  then have "float64_round (of_int (sint d sdiv 1000000000)) = of_int (sint d sdiv 1000000000)"
    by (rule float64_round_of_int)
  moreover have "float64_round 0 = 0"
    by (simp add: float64_round_def)
  ultimately show ?thesis
    using assms by (simp add: Seconds_def Second_def)
qed

lemma float64_to_int_of_int: "float64_to_int (of_int k) = k"
  by (simp add: float64_to_int_def)

lemma float64_to_int_bound:
  assumes "\<bar>x\<bar> \<le> of_int b"
  shows "\<bar>float64_to_int x\<bar> \<le> b"
proof (cases "0 \<le> x")
  case True
  then have "0 \<le> \<lfloor>x\<rfloor>" by simp
  moreover have "rat_of_int \<lfloor>x\<rfloor> \<le> of_int b"
    using assms True by linarith
  then have "\<lfloor>x\<rfloor> \<le> b" by (simp only: of_int_le_iff)
  ultimately show ?thesis using True by (simp add: float64_to_int_def)
next
  case False
  then have "\<lceil>x\<rceil> \<le> 0" by (simp add: ceiling_le_iff)
  moreover have "rat_of_int (- b) \<le> of_int \<lceil>x\<rceil>"
    using assms False by simp linarith
  then have "- b \<le> \<lceil>x\<rceil>" by (simp only: of_int_le_iff)
  ultimately show ?thesis using False by (simp add: float64_to_int_def)
qed

lemma Skip_seek_whole:
  fixes offsetSecs :: "64 word"
  assumes "- 9223372036 \<le> sint offsetSecs" and "sint offsetSecs \<le> 9223372036"
  shows "sint (offsetSecs * Second) smod 1000000000 = 0"
    and "float64_to_int (Seconds (offsetSecs * Second)) = sint offsetSecs"
proof -
  have s: "sint (offsetSecs * Second) = sint offsetSecs * 1000000000"
    using assms by (rule sint_seconds_exact)
  show w: "sint (offsetSecs * Second) smod 1000000000 = 0"
    by (simp add: s signed_modulo_int_def)
  have "sint (offsetSecs * Second) sdiv 1000000000 = sint offsetSecs"
    by (simp add: s signed_divide_int_def sgn_mult abs_mult mult_sgn_abs)
  with Seconds_whole [OF w]
  have "Seconds (offsetSecs * Second) = rat_of_int (sint offsetSecs)"
    by (simp only:)
  then show "float64_to_int (Seconds (offsetSecs * Second)) = sint offsetSecs"
    by (simp only: float64_to_int_of_int)
qed

text \<open>
  On a duration that is not a whole number of seconds the sum can round up to the next
  second: 9000000000.999999999 s is nearer to the \<^verbatim>\<open>float64\<close> 9000000001 than to any
  other.
\<close>

lemma Seconds_rounds_up: "float64_to_int (Seconds 9000000000999999999) = 9000000001"
  by code_simp

subsection \<open>Word arithmetic of the position\<close>

lemma bytes_per_second: "BitRate div 8 = 192000"
  by (simp add: BitRate_def SampleRate_def BitsPerSample_def Channels_def)

lemma playedSecs_uint:
  fixes c u :: "64 word"
  shows "uint ((c - u) div 192000) = ((uint c - uint u) mod 2 ^ 64) div 192000"
    and "uint ((c - u) div 192000) \<le> 96076792050570"
proof -
  show eq: "uint ((c - u) div 192000) = ((uint c - uint u) mod 2 ^ 64) div 192000"
    by (simp add: uint_div_distrib uint_word_ariths)
  have "(uint c - uint u) mod 2 ^ 64 < 2 ^ 64" by simp
  then have "((uint c - uint u) mod 2 ^ 64) div 192000 \<le> 96076792050570" by simp
  with eq show "uint ((c - u) div 192000) \<le> 96076792050570" by simp
qed

lemma sint_position:
  fixes a :: "64 word"
  assumes "uint a \<le> 96076792050570" and "\<bar>t\<bar> \<le> 9223372040"
  shows "sint (a + word_of_int t) = uint a + t"
proof -
  have "0 \<le> uint a" by simp
  with assms have lo: "- 9223372036854775808 \<le> uint a + t"
    and hi: "uint a + t < 9223372036854775808"
    by linarith+
  have "a + word_of_int t = word_of_int (uint a + t)"
    by simp
  then have "sint (a + word_of_int t) = signed_take_bit 63 (uint a + t)"
    by (simp only: sint_sbintrunc') simp
  also have "\<dots> = uint a + t"
    using lo hi by (intro signed_take_bit_int_eq_self) simp_all
  finally show ?thesis .
qed

subsection \<open>Seeks along a run\<close>

lemma Skip_seek_nonneg:
  assumes "0 \<le> sint offsetSecs" and "sint offsetSecs \<le> 9223372036"
    and "list_all seek_nonneg (items j)"
  shows "list_all seek_nonneg (items (Skip P k offsetSecs j))"
proof (cases "inbounds (int (length (items j))) k")
  case False
  with assms show ?thesis by (simp add: Skip_def)
next
  case True
  have "0 \<le> sint (offsetSecs * Second)"
    using assms(1,2) by (simp add: sint_seconds_exact)
  then have new: "seek_nonneg ((items j ! nat k)\<lparr>seek := offsetSecs * Second\<rparr>)"
    by (simp add: seek_nonneg_def)
  have "set ((items j)[nat k := (items j ! nat k)\<lparr>seek := offsetSecs * Second\<rparr>])
      \<subseteq> insert ((items j ! nat k)\<lparr>seek := offsetSecs * Second\<rparr>) (set (items j))"
    by (rule set_update_subset_insert)
  with new assms(3) have "list_all seek_nonneg
      ((items j)[nat k := (items j ! nat k)\<lparr>seek := offsetSecs * Second\<rparr>])"
    unfolding list_all_iff by blast
  with True show ?thesis by (simp add: Skip_def)
qed

lemma RemoveItem_seek_nonneg:
  assumes "list_all seek_nonneg (items j)"
  shows "list_all seek_nonneg (items (RemoveItem k j))"
  using assms
  by (auto simp add: RemoveItem_def list_all_iff dest: in_set_takeD in_set_dropD)

lemma decode_seek_nonneg:
  assumes "list_all seek_nonneg (items j)"
  shows "list_all seek_nonneg (items (decode P (transcoding err n) j))"
  using assms
  by (simp add: decode_def decode_tail_def transcoding_def ClearItems_def
      split: sum.splits option.splits)

lemma call_seek_nonneg:
  assumes "call_ok c" and "list_all seek_nonneg (items j)" and "call P c j = Inr j'"
  shows "list_all seek_nonneg (items j')"
proof (cases c)
  case (CallSkip k offsetSecs)
  with assms show ?thesis by (auto simp add: Skip_seek_nonneg)
next
  case (CallRemoveItem k)
  with assms show ?thesis by (auto simp add: RemoveItem_seek_nonneg)
next
  case (CallDecode err n)
  with assms show ?thesis by (auto simp add: decode_seek_nonneg)
next
  case CallQuit
  with assms show ?thesis by (auto simp add: Quit_def Let_def split: if_splits)
qed (use assms in \<open>auto simp add: SetItems_def AppendItems_def ClearItems_def
      Jukebox_Pause_def Jukebox_Play_def SetGain_def\<close>)

lemma calls_seek_nonneg:
  assumes "list_all call_ok cs" and "list_all seek_nonneg (items j)" and "calls P cs j = Inr j'"
  shows "list_all seek_nonneg (items j')"
  using assms
proof (induction cs arbitrary: j)
  case Nil
  then show ?case by simp
next
  case (Cons c cs)
  from Cons.prems(3) obtain j1 where c: "call P c j = Inr j1" and cs: "calls P cs j1 = Inr j'"
    by (auto split: sum.splits)
  from Cons.prems(1) have "call_ok c" and ok: "list_all call_ok cs" by simp_all
  with c Cons.prems(2) have "list_all seek_nonneg (items j1)"
    by (auto intro: call_seek_nonneg)
  then show ?case by (rule Cons.IH [OF ok _ cs])
qed

subsection \<open>Replacing the playlist\<close>

text \<open>
  C1. The claim: after \<^verbatim>\<open>SetItems(items)\<close> the playlist is \<open>items\<close> and the cursor is 0,
  so that \<^verbatim>\<open>Current()\<close> returns \<open>items[0]\<close> when \<open>items\<close> is not empty. The code
  assigns \<^verbatim>\<open>j.items\<close> only (\<open>SetItems_fields\<close>). Evaluated on the test jukebox: after
  two items are set and \<^verbatim>\<open>Skip(1, 0)\<close> has moved the cursor to 1, setting a playlist of
  one item leaves the cursor at 1, \<^verbatim>\<open>Current()\<close> is out of bounds, and the decode
  session that the signal on \<^verbatim>\<open>next\<close> starts clears the playlist just set.
\<close>

theorem SetItems_stale_cursor:
  "i (Skip mockPlayer_methods 1 0
        (SetItems [NewPlaylistItem 1 ''a'', NewPlaylistItem 2 ''b''] newJukebox)) = 1 \<and>
   i (SetItems [NewPlaylistItem 3 ''c'']
        (Skip mockPlayer_methods 1 0
           (SetItems [NewPlaylistItem 1 ''a'', NewPlaylistItem 2 ''b''] newJukebox))) = 1 \<and>
   Current (SetItems [NewPlaylistItem 3 ''c'']
        (Skip mockPlayer_methods 1 0
           (SetItems [NewPlaylistItem 1 ''a'', NewPlaylistItem 2 ''b''] newJukebox))) = Inl ErrOOB \<and>
   items (decode mockPlayer_methods (transcoding None 0)
        (SetItems [NewPlaylistItem 3 ''c'']
           (Skip mockPlayer_methods 1 0
              (SetItems [NewPlaylistItem 1 ''a'', NewPlaylistItem 2 ''b''] newJukebox)))) = []"
  by (simp add: SetItems_def Skip_def Current_def inbounds_def newJukebox_def decode_def
      ClearItems_def)

subsection \<open>The reported position\<close>

text \<open>
  C2, as the claim states it, fails: the played bytes are a \<^verbatim>\<open>uint64\<close> difference.
  With nothing counted since the last reset of the pipe and 4096 bytes still unplayed
  in the player, the difference wraps and the reported position is 96076792050570
  seconds, where the formula over the integers gives 0.
\<close>

theorem GetStatus_Position_counterexample:
  "inbounds (int (length (items (SetItems [NewPlaylistItem 1 ''a''] newJukebox))))
     (i (SetItems [NewPlaylistItem 1 ''a''] newJukebox)) \<and>
   sint (Position (GetStatus (mockPlayer_methods\<lparr>UnplayedBufferSize := \<lambda>m. 4096\<rparr>) 0
     (SetItems [NewPlaylistItem 1 ''a''] newJukebox))) \<noteq>
   spec_Position (uint (Count (pcmr (SetItems [NewPlaylistItem 1 ''a''] newJukebox))))
     (sint (UnplayedBufferSize (mockPlayer_methods\<lparr>UnplayedBufferSize := \<lambda>m. 4096\<rparr>)
        (player (SetItems [NewPlaylistItem 1 ''a''] newJukebox))))
     (sint (seek (items (SetItems [NewPlaylistItem 1 ''a''] newJukebox) !
        nat (i (SetItems [NewPlaylistItem 1 ''a''] newJukebox))))) \<and>
   sint (Position (GetStatus (mockPlayer_methods\<lparr>UnplayedBufferSize := \<lambda>m. 4096\<rparr>) 0
     (SetItems [NewPlaylistItem 1 ''a''] newJukebox))) = 96076792050570"
  by (simp add: GetStatus_def SetItems_def newJukebox_def inbounds_def NewPlaylistItem_def
      NewCountReader_def Count_def bytes_per_second Seconds_def Second_def float64_round_def
      float64_to_int_def spec_Position_def mockPlayer_methods_def)

text \<open>
  C2, amended. \<^verbatim>\<open>GetStatus()\<close> reports the cursor, and \<^verbatim>\<open>Playing\<close> and \<^verbatim>\<open>Gain\<close> from
  the player, in every state. If the cursor is in bounds, the position is
  \<open>((Count - Unplayed) mod 2\<^sup>6\<^sup>4) div 192000\<close> plus \<^verbatim>\<open>int(seek.Seconds())\<close> of the current
  item, without overflow; if moreover \<open>0 \<le> Unplayed \<le> Count\<close> and the seek is a whole
  number of seconds, this is the position of the specification,
  \<open>(Count - Unplayed) div 192000 + seek div 1s\<close>. If the cursor is out of bounds the position
  is 0.
\<close>

theorem GetStatus_Position:
  "CurrentIndex (GetStatus P g0 j) = i j \<and>
   Playing (GetStatus P g0 j) = IsPlaying P (player j) \<and>
   Gain (GetStatus P g0 j) = Volume P (player j) \<and>
   (inbounds (int (length (items j))) (i j) \<longrightarrow>
      sint (Position (GetStatus P g0 j)) =
        ((uint (Count (pcmr j)) - uint (UnplayedBufferSize P (player j))) mod 2 ^ 64) div 192000
        + float64_to_int (Seconds (seek (items j ! nat (i j))))) \<and>
   (inbounds (int (length (items j))) (i j) \<and>
    0 \<le> sint (UnplayedBufferSize P (player j)) \<and>
    sint (UnplayedBufferSize P (player j)) \<le> uint (Count (pcmr j)) \<and>
    sint (seek (items j ! nat (i j))) smod 1000000000 = 0 \<longrightarrow>
      sint (Position (GetStatus P g0 j)) =
        spec_Position (uint (Count (pcmr j))) (sint (UnplayedBufferSize P (player j)))
          (sint (seek (items j ! nat (i j))))) \<and>
   (\<not> inbounds (int (length (items j))) (i j) \<longrightarrow> Position (GetStatus P g0 j) = 0)"
proof -
  define c where "c = Count (pcmr j)"
  define u where "u = UnplayedBufferSize P (player j)"
  define d where "d = seek (items j ! nat (i j))"
  define t where "t = float64_to_int (Seconds d)"
  have t: "\<bar>t\<bar> \<le> 9223372040"
    unfolding t_def using Seconds_bound [of d] by (intro float64_to_int_bound) simp
  have pos: "Position (GetStatus P g0 j) = (c - u) div 192000 + word_of_int t"
    if "inbounds (int (length (items j))) (i j)"
    using that by (simp add: GetStatus_def Let_def bytes_per_second c_def u_def d_def t_def)
  have general: "sint (Position (GetStatus P g0 j)) =
      ((uint c - uint u) mod 2 ^ 64) div 192000 + t"
    if "inbounds (int (length (items j))) (i j)"
    using that t by (simp add: pos sint_position playedSecs_uint)
  have exact: "sint (Position (GetStatus P g0 j)) = spec_Position (uint c) (sint u) (sint d)"
    if "inbounds (int (length (items j))) (i j)" and "0 \<le> sint u" and "sint u \<le> uint c"
      and "sint d smod 1000000000 = 0"
  proof -
    have "sint u < 2 ^ 64"
      using sint_lt [of u] by simp
    with that(2) have "take_bit 64 (sint u) = sint u"
      by (intro take_bit_int_eq_self) simp_all
    then have su: "sint u = uint u"
      by (simp add: uint_sint)
    have "uint c < 2 ^ 64" using uint_bounded [of c] by simp
    moreover have "0 \<le> uint u" by simp
    ultimately have "0 \<le> uint c - uint u" and "uint c - uint u < 2 ^ 64"
      using that(3) su by linarith+
    then have "(uint c - uint u) mod 2 ^ 64 = uint c - uint u"
      by (rule mod_pos_pos_trivial)
    moreover have "(uint c - uint u) sdiv 192000 = (uint c - uint u) div 192000"
      using \<open>0 \<le> uint c - uint u\<close>
      by (cases "uint c - uint u = 0") (simp_all add: signed_divide_int_eq_divide_int)
    moreover have "t = sint d sdiv 1000000000"
      unfolding t_def by (simp add: Seconds_whole [OF that(4)] float64_to_int_of_int)
    ultimately show ?thesis
      using general [OF that(1)] su by (simp add: spec_Position_def bytes_per_second)
  qed
  have oob: "Position (GetStatus P g0 j) = 0" if "\<not> inbounds (int (length (items j))) (i j)"
    using that by (simp add: GetStatus_def Let_def)
  have fields: "CurrentIndex (GetStatus P g0 j) = i j \<and>
      Playing (GetStatus P g0 j) = IsPlaying P (player j) \<and>
      Gain (GetStatus P g0 j) = Volume P (player j)"
    by (simp add: GetStatus_def Let_def)
  from fields general exact oob show ?thesis
    unfolding c_def u_def d_def t_def by blast
qed

theorem GetStatus_Position_witness:
  "inbounds (int (length (items ((Skip mockPlayer_methods 0 2
        (SetItems [NewPlaylistItem 1 ''a''] newJukebox))\<lparr>pcmr := \<lparr>counter = 960007, buffered = 0\<rparr>\<rparr>))))
     (i ((Skip mockPlayer_methods 0 2
        (SetItems [NewPlaylistItem 1 ''a''] newJukebox))\<lparr>pcmr := \<lparr>counter = 960007, buffered = 0\<rparr>\<rparr>)) \<and>
   sint (Position (GetStatus mockPlayer_methods 0 ((Skip mockPlayer_methods 0 2
        (SetItems [NewPlaylistItem 1 ''a''] newJukebox))\<lparr>pcmr := \<lparr>counter = 960007, buffered = 0\<rparr>\<rparr>))) = 7 \<and>
   \<not> inbounds (int (length (items newJukebox))) (i newJukebox) \<and>
   Position (GetStatus mockPlayer_methods 0 newJukebox) = 0"
  using GetStatus_Position [of mockPlayer_methods 0 "(Skip mockPlayer_methods 0 2
        (SetItems [NewPlaylistItem 1 ''a''] newJukebox))\<lparr>pcmr := \<lparr>counter = 960007, buffered = 0\<rparr>\<rparr>"]
    GetStatus_Position [of mockPlayer_methods 0 newJukebox]
  by (simp add: Skip_def SetItems_def newJukebox_def inbounds_def NewPlaylistItem_def
      Count_def Second_def spec_Position_def bytes_per_second mockPlayer_methods_def)

subsection \<open>The control loop after quit\<close>

text \<open>
  C3. The claim: on \<^verbatim>\<open>quit\<close> the loop fires the cancellation token and performs no
  further iteration. Evaluated: the iteration that receives \<^verbatim>\<open>quit\<close> fires its token,
  and the next iteration receives \<^verbatim>\<open>next\<close> and starts a decode session; the loop has
  not exited.
\<close>

theorem DecodeStream_after_quit:
  "DecodeStream 0 [RecvQuit, RecvNext] = ([FireCancel 0, GoDecode 1], NextIteration)"
  by simp

subsection \<open>The decode session on a transcode error\<close>

text \<open>
  C4. When \<^verbatim>\<open>Transcode\<close> returns an error, the session runs the tail of a successful
  one: the pipe counter is 0 afterwards, the cursor is one more than before the tail,
  and one signal is sent on \<^verbatim>\<open>next\<close>; the state differs from that of a success only
  by the log line. The same holds of the whole session when \<^verbatim>\<open>Current()\<close> succeeds and
  the transcoder, leaving the state \<open>j1\<close>, returns the error \<open>e\<close>.
\<close>

theorem decode_error_tail:
  "Count (pcmr (decode_tail (Some e) j)) = 0 \<and>
   i (decode_tail (Some e) j) = i j + 1 \<and>
   next_sent (decode_tail (Some e) j) = next_sent j + 1 \<and>
   items (decode_tail (Some e) j) = items j \<and>
   decode_tail (Some e) j =
     (decode_tail None j)\<lparr>logged := logged j @ [''decoding item: '' @ e]\<rparr> \<and>
   (Current j = Inr item \<and> T item j = (Some e, j1) \<longrightarrow>
      decode P T j = decode_tail (Some e) j1 \<and>
      Count (pcmr (decode P T j)) = 0 \<and>
      i (decode P T j) = i j1 + 1 \<and>
      next_sent (decode P T j) = next_sent j1 + 1)"
  by (simp add: decode_def decode_tail_def Count_def CountReader_Reset_def)

theorem decode_error_tail_witness:
  "Current (SetItems [NewPlaylistItem 1 ''a''] newJukebox) = Inr (NewPlaylistItem 1 ''a'') \<and>
   transcoding (Some ''exit status 1'') 4096 (NewPlaylistItem 1 ''a'')
       (SetItems [NewPlaylistItem 1 ''a''] newJukebox)
     = (Some ''exit status 1'',
        (SetItems [NewPlaylistItem 1 ''a''] newJukebox)
          \<lparr>pcmr := \<lparr>counter = 4096, buffered = 0\<rparr>\<rparr>) \<and>
   i (decode mockPlayer_methods (transcoding (Some ''exit status 1'') 4096)
        (SetItems [NewPlaylistItem 1 ''a''] newJukebox)) = 1 \<and>
   Count (pcmr (decode mockPlayer_methods (transcoding (Some ''exit status 1'') 4096)
        (SetItems [NewPlaylistItem 1 ''a''] newJukebox))) = 0 \<and>
   next_sent (decode mockPlayer_methods (transcoding (Some ''exit status 1'') 4096)
        (SetItems [NewPlaylistItem 1 ''a''] newJukebox)) = 2"
  using decode_error_tail [of "''exit status 1''"
      "SetItems [NewPlaylistItem 1 ''a''] newJukebox"
      "NewPlaylistItem 1 ''a''" "transcoding (Some ''exit status 1'') 4096"
      "(SetItems [NewPlaylistItem 1 ''a''] newJukebox)
         \<lparr>pcmr := \<lparr>counter = 4096, buffered = 0\<rparr>\<rparr>" mockPlayer_methods]
  by (simp add: SetItems_def newJukebox_def Current_def inbounds_def transcoding_def
      NewCountReader_def decode_def decode_tail_def Count_def CountReader_Reset_def)

subsection \<open>Skip\<close>

text \<open>
  C5, as the claim states it, fails: the seek is the \<^verbatim>\<open>int64\<close> product
  \<^verbatim>\<open>time.Duration(offsetSecs) * time.Second\<close>, which wraps. On a playlist of one new
  item, \<^verbatim>\<open>Skip(0, 9223372037)\<close> is in bounds and leaves the item with a seek of
  \<open>-9223372036709551616\<close> ns, not 9223372037 seconds.
\<close>

theorem Skip_offset_overflow_counterexample:
  "inbounds (int (length (items (SetItems [NewPlaylistItem 1 ''a''] newJukebox)))) 0 \<and>
   sint (seek (items (Skip mockPlayer_methods 0 9223372037
        (SetItems [NewPlaylistItem 1 ''a''] newJukebox)) ! nat 0))
     \<noteq> sint (9223372037 :: 64 word) * 1000000000 \<and>
   sint (9223372037 :: 64 word) = 9223372037 \<and>
   sint (seek (items (Skip mockPlayer_methods 0 9223372037
        (SetItems [NewPlaylistItem 1 ''a''] newJukebox)) ! nat 0))
     = - 9223372036709551616"
  by (simp add: SetItems_def Skip_def newJukebox_def inbounds_def NewPlaylistItem_def
      Second_def)

text \<open>
  C5, amended. If the index \<open>k\<close> is in bounds, \<^verbatim>\<open>Skip(k, offsetSecs)\<close> sets the cursor to
  \<open>k\<close>, sets the seek of item \<open>k\<close> to the wrapping product
  \<^verbatim>\<open>time.Duration(offsetSecs) * time.Second\<close>, which is \<open>offsetSecs\<close> seconds
  (\<open>offsetSecs \<cdot> 10\<^sup>9\<close> ns) whenever \<open>-9223372036 \<le> offsetSecs \<le> 9223372036\<close>, leaves the
  item's id and path and the length of the playlist as they are, calls \<^verbatim>\<open>Play\<close> on the
  player and sends one signal on \<^verbatim>\<open>next\<close>. If \<open>k\<close> is out of bounds, the state is
  unchanged.
\<close>

theorem Skip_spec:
  "(inbounds (int (length (items j))) k \<longrightarrow>
      i (Skip P k offsetSecs j) = k \<and>
      length (items (Skip P k offsetSecs j)) = length (items j) \<and>
      seek (items (Skip P k offsetSecs j) ! nat k) = offsetSecs * Second \<and>
      id' (items (Skip P k offsetSecs j) ! nat k) = id' (items j ! nat k) \<and>
      path (items (Skip P k offsetSecs j) ! nat k) = path (items j ! nat k) \<and>
      (- 9223372036 \<le> sint offsetSecs \<and> sint offsetSecs \<le> 9223372036 \<longrightarrow>
         sint (seek (items (Skip P k offsetSecs j) ! nat k)) = sint offsetSecs * 1000000000) \<and>
      player (Skip P k offsetSecs j) = Play P (player j) \<and>
      next_sent (Skip P k offsetSecs j) = next_sent j + 1 \<and>
      pcmr (Skip P k offsetSecs j) = pcmr j) \<and>
   (\<not> inbounds (int (length (items j))) k \<longrightarrow> Skip P k offsetSecs j = j)"
  by (simp add: Skip_def sint_seconds_exact inbounds_nat)

theorem Skip_spec_witness:
  "inbounds (int (length (items
      (SetItems [NewPlaylistItem 1 ''a'', NewPlaylistItem 2 ''b''] newJukebox)))) 1 \<and>
   i (Skip mockPlayer_methods 1 2
        (SetItems [NewPlaylistItem 1 ''a'', NewPlaylistItem 2 ''b''] newJukebox)) = 1 \<and>
   sint (seek (items (Skip mockPlayer_methods 1 2
        (SetItems [NewPlaylistItem 1 ''a'', NewPlaylistItem 2 ''b''] newJukebox)) ! nat 1))
     = 2000000000 \<and>
   \<not> inbounds (int (length (items newJukebox))) 10 \<and>
   Skip mockPlayer_methods 10 10 newJukebox = newJukebox"
  using Skip_spec [of "SetItems [NewPlaylistItem 1 ''a'', NewPlaylistItem 2 ''b''] newJukebox"
      1 mockPlayer_methods 2]
    Skip_spec [of newJukebox 10 mockPlayer_methods 10]
  by (simp add: SetItems_def newJukebox_def inbounds_def Second_def)

subsection \<open>Clearing the playlist\<close>

text \<open>
  C6. After \<^verbatim>\<open>ClearItems()\<close> the cursor is 0, the playlist is empty, the byte counter of
  the pipe is 0 with nothing buffered, and the player is the old one after \<^verbatim>\<open>Reset\<close>.
\<close>

theorem ClearItems_post:
  "i (ClearItems P j) = 0 \<and> items (ClearItems P j) = [] \<and>
   Count (pcmr (ClearItems P j)) = 0 \<and> buffered (pcmr (ClearItems P j)) = 0 \<and>
   player (ClearItems P j) = Reset P (player j)"
  by (simp add: ClearItems_def Count_def CountReader_Reset_def)

subsection \<open>The current item\<close>

text \<open>
  C7. \<^verbatim>\<open>Current()\<close> returns the item at the cursor exactly when the playlist is not
  empty and the cursor is at least 0 and less than its length, and the error
  \<^verbatim>\<open>ErrOOB\<close> exactly otherwise; on an empty playlist it is \<^verbatim>\<open>ErrOOB\<close> whatever the
  cursor.
\<close>

theorem Current_inbounds:
  "(Current j = Inr (items j ! nat (i j)) \<longleftrightarrow>
      0 < length (items j) \<and> 0 \<le> i j \<and> i j < int (length (items j))) \<and>
   (Current j = Inl ErrOOB \<longleftrightarrow>
      \<not> (0 < length (items j) \<and> 0 \<le> i j \<and> i j < int (length (items j)))) \<and>
   (items j = [] \<longrightarrow> Current j = Inl ErrOOB)"
  by (auto simp add: Current_def inbounds_def)

theorem Current_inbounds_witness:
  "Current (Skip mockPlayer_methods 1 0
      (SetItems [NewPlaylistItem 7 ''a'', NewPlaylistItem 8 ''b''] newJukebox))
     = Inr (NewPlaylistItem 8 ''b'') \<and>
   items (newJukebox\<lparr>i := 5\<rparr>) = [] \<and> Current (newJukebox\<lparr>i := 5\<rparr>) = Inl ErrOOB"
  using Current_inbounds [of "Skip mockPlayer_methods 1 0
      (SetItems [NewPlaylistItem 7 ''a'', NewPlaylistItem 8 ''b''] newJukebox)"]
    Current_inbounds [of "newJukebox\<lparr>i := 5\<rparr>"]
  by (simp add: Skip_def SetItems_def newJukebox_def inbounds_def NewPlaylistItem_def
      Second_def mockPlayer_methods_def)

subsection \<open>The seek of an item\<close>

text \<open>
  C8, as the claim states it, fails: \<^verbatim>\<open>Skip\<close> stores \<^verbatim>\<open>offsetSecs\<close> seconds whatever
  the sign of \<^verbatim>\<open>offsetSecs\<close>. On a playlist of one new item, \<^verbatim>\<open>Skip(0, -1)\<close> leaves the
  item with a seek of \<open>-1\<close> s.
\<close>

theorem Skip_negative_offset_counterexample:
  "list_all seek_nonneg (items (SetItems [NewPlaylistItem 1 ''a''] newJukebox)) \<and>
   \<not> list_all seek_nonneg
       (items (Skip mockPlayer_methods 0 (- 1) (SetItems [NewPlaylistItem 1 ''a''] newJukebox)))"
  by (simp add: SetItems_def Skip_def newJukebox_def inbounds_def seek_nonneg_def
      NewPlaylistItem_def Second_def)

text \<open>
  C8, amended. An item is created with seek 0. In every state reached from the state
  \<^verbatim>\<open>New\<close> returns by method calls and decode sessions in which the items handed to
  \<^verbatim>\<open>SetItems\<close> and \<^verbatim>\<open>AppendItems\<close> have a non-negative seek and every \<^verbatim>\<open>Skip\<close> has
  \<open>0 \<le> offsetSecs \<le> 9223372036\<close>, the seek of every item of the playlist is non-negative.
\<close>

theorem seek_nonneg_invariant:
  "seek (NewPlaylistItem n p) = 0 \<and>
   (New pf = Inr j0 \<and> list_all call_ok cs \<and> calls P cs j0 = Inr j \<longrightarrow>
      list_all seek_nonneg (items j))"
proof -
  have "list_all seek_nonneg (items j0)" if "New pf = Inr j0"
    using that by (auto simp add: New_def split: sum.splits)
  then show ?thesis
    by (auto simp add: NewPlaylistItem_def intro: calls_seek_nonneg)
qed

theorem seek_nonneg_invariant_witness:
  "New (Inr \<lparr>playing = False, gain = 1\<rparr>) = Inr newJukebox \<and>
   list_all call_ok
     [CallSetItems [NewPlaylistItem 1 ''a'', NewPlaylistItem 2 ''b''], CallPlay, CallSkip 1 2,
      CallDecode None 192000, CallAppendItems [NewPlaylistItem 3 ''c''], CallRemoveItem 0] \<and>
   calls mockPlayer_methods
     [CallSetItems [NewPlaylistItem 1 ''a'', NewPlaylistItem 2 ''b''], CallPlay, CallSkip 1 2,
      CallDecode None 192000, CallAppendItems [NewPlaylistItem 3 ''c''], CallRemoveItem 0]
     newJukebox =
     Inr \<lparr>pcmr = \<lparr>counter = 0, buffered = 0\<rparr>, player = \<lparr>playing = True, gain = 1\<rparr>,
          next_sent = 3, quit_closed = False, i = 2,
          items = [\<lparr>id' = 2, path = ''b'', seek = 2000000000\<rparr>,
                   \<lparr>id' = 3, path = ''c'', seek = 0\<rparr>],
          logged = []\<rparr> \<and>
   list_all seek_nonneg [\<lparr>id' = 2, path = ''b'', seek = 2000000000\<rparr>,
                   \<lparr>id' = 3, path = ''c'', seek = 0\<rparr>]"
  using seek_nonneg_invariant [of 1 "''a''" "Inr \<lparr>playing = False, gain = 1\<rparr>" newJukebox
     "[CallSetItems [NewPlaylistItem 1 ''a'', NewPlaylistItem 2 ''b''], CallPlay, CallSkip 1 2,
      CallDecode None 192000, CallAppendItems [NewPlaylistItem 3 ''c''], CallRemoveItem 0]"
     mockPlayer_methods
     "\<lparr>pcmr = \<lparr>counter = 0, buffered = 0\<rparr>, player = \<lparr>playing = True, gain = 1\<rparr>,
          next_sent = 3, quit_closed = False, i = 2,
          items = [\<lparr>id' = 2, path = ''b'', seek = 2000000000\<rparr>,
                   \<lparr>id' = 3, path = ''c'', seek = 0\<rparr>],
          logged = []\<rparr>"]
  by (simp add: New_def newJukebox_def seek_nonneg_def NewPlaylistItem_def SetItems_def
      Jukebox_Play_def Skip_def inbounds_def decode_def Current_def transcoding_def
      decode_tail_def AppendItems_def RemoveItem_def mockPlayer_methods_def NewCountReader_def
      CountReader_Reset_def Second_def)

subsection \<open>Appending\<close>

text \<open>
  C9. Appending \<open>A\<close> and then \<open>B\<close> to a playlist \<open>prev\<close> gives the same item sequence as
  setting the playlist to \<open>prev @ A @ B\<close>.
\<close>

theorem AppendItems_twice:
  "items (AppendItems B (AppendItems A j)) = items (SetItems (items j @ A @ B) j)"
  by (simp add: AppendItems_def SetItems_def)

text \<open>
  C10. \<^verbatim>\<open>AppendItems(xs)\<close> changes the item sequence only: cursor, pipe, player, the
  signals sent on \<^verbatim>\<open>next\<close>, the quit channel and the log are as before. \<^verbatim>\<open>SetItems\<close>
  and an in-bounds \<^verbatim>\<open>Skip\<close> each send a signal on \<^verbatim>\<open>next\<close>.
\<close>

theorem AppendItems_frame:
  "items (AppendItems xs j) = items j @ xs \<and>
   i (AppendItems xs j) = i j \<and>
   pcmr (AppendItems xs j) = pcmr j \<and>
   player (AppendItems xs j) = player j \<and>
   next_sent (AppendItems xs j) = next_sent j \<and>
   quit_closed (AppendItems xs j) = quit_closed j \<and>
   logged (AppendItems xs j) = logged j \<and>
   next_sent (SetItems xs j) = next_sent j + 1 \<and>
   (inbounds (int (length (items j))) k \<longrightarrow>
      next_sent (Skip P k offsetSecs j) = next_sent j + 1)"
  by (simp add: AppendItems_def SetItems_def Skip_def)

theorem AppendItems_frame_witness:
  "inbounds (int (length (items (SetItems [NewPlaylistItem 1 ''a''] newJukebox)))) 0 \<and>
   next_sent (AppendItems [NewPlaylistItem 2 ''b'']
      (SetItems [NewPlaylistItem 1 ''a''] newJukebox)) = 1 \<and>
   i (AppendItems [NewPlaylistItem 2 ''b'']
      (SetItems [NewPlaylistItem 1 ''a''] newJukebox)) = 0 \<and>
   next_sent (Skip mockPlayer_methods 0 0
      (SetItems [NewPlaylistItem 1 ''a''] newJukebox)) = 2"
  using AppendItems_frame [of "[NewPlaylistItem 2 ''b'']"
      "SetItems [NewPlaylistItem 1 ''a''] newJukebox" 0 mockPlayer_methods 0]
  by (simp add: SetItems_def newJukebox_def inbounds_def)

end
